theory Spec2Isabelle
  imports Complex_Main
begin

section \<open>Python values\<close>

text \<open>
  The scripts work on decoded JSON. A decoded document is a value of \<open>json\<close>; a Python
  \<open>dict\<close> is an association list in insertion order with one entry for each key.
  Python floats are modelled as exact reals: rounding error, infinities and NaN are
  outside the model. Python integers are unbounded, so the one place where the two
  meet, \<open>float(i)\<close> on an integer beyond the range of a double, keeps its
  \<open>OverflowError\<close>. Strings are lists of 8-bit characters read as Latin-1 code points.
\<close>

datatype json =
    JNull
  | JBool bool
  | JInt int
  | JFloat real
  | JStr string
  | JList "json list"
  | JDict "(string \<times> json) list"

datatype error =
    TypeError
  | ValueError
  | AttributeError
  | OverflowError
  | JSONDecodeError
  | TimeoutError
  | URLError

type_synonym dict = "(string \<times> json) list"

text \<open>Truth value of a decoded object, as \<open>if not value\<close> tests it.\<close>

fun truthy :: "json \<Rightarrow> bool" where
  "truthy JNull = False"
| "truthy (JBool b) = b"
| "truthy (JInt i) = (i \<noteq> 0)"
| "truthy (JFloat r) = (r \<noteq> 0)"
| "truthy (JStr s) = (s \<noteq> [])"
| "truthy (JList xs) = (xs \<noteq> [])"
| "truthy (JDict d) = (d \<noteq> [])"

text \<open>\<open>d.get(k, default)\<close> on a dict.\<close>

definition dget :: "dict \<Rightarrow> string \<Rightarrow> json \<Rightarrow> json" where
  "dget d k dflt = (case map_of d k of None \<Rightarrow> dflt | Some v \<Rightarrow> v)"

text \<open>\<open>d[k] = v\<close>: an existing key keeps its place, a new key goes to the end.\<close>

fun dput :: "'k \<Rightarrow> 'v \<Rightarrow> ('k \<times> 'v) list \<Rightarrow> ('k \<times> 'v) list" where
  "dput k v [] = [(k, v)]"
| "dput k v ((k', v') # d) = (if k = k' then (k, v) # d else (k', v') # dput k v d)"

text \<open>\<open>isinstance(x, (int, float))\<close>; \<open>bool\<close> is a subclass of \<open>int\<close>.\<close>

fun is_number :: "json \<Rightarrow> bool" where
  "is_number (JBool b) = True"
| "is_number (JInt i) = True"
| "is_number (JFloat r) = True"
| "is_number v = False"

text \<open>
  \<open>float(x)\<close>. The parser of the built-in for strings is a parameter \<open>pf\<close> of the
  model (\<open>None\<close> is its \<open>ValueError\<close>). An integer converts when it rounds to a
  finite double, that is below \<open>2^1024 - 2^970\<close> in absolute value.
\<close>

definition float_max_int :: int where
  "float_max_int = 2 ^ 1024 - 2 ^ 970"

fun float_of_number :: "json \<Rightarrow> error + real" where
  "float_of_number (JBool b) = Inr (if b then 1 else 0)"
| "float_of_number (JInt i) =
     (if \<bar>i\<bar> < float_max_int then Inr (real_of_int i) else Inl OverflowError)"
| "float_of_number (JFloat r) = Inr r"
| "float_of_number v = Inl TypeError"

definition to_float :: "(string \<Rightarrow> real option) \<Rightarrow> json \<Rightarrow> error + real" where
  "to_float pf v =
     (case v of
        JStr s \<Rightarrow> (case pf s of None \<Rightarrow> Inl ValueError | Some r \<Rightarrow> Inr r)
      | _ \<Rightarrow> float_of_number v)"

text \<open>Sequencing of steps that may raise.\<close>

definition ebind :: "error + 'a \<Rightarrow> ('a \<Rightarrow> error + 'b) \<Rightarrow> error + 'b" where
  "ebind m f = (case m of Inl e \<Rightarrow> Inl e | Inr x \<Rightarrow> f x)"

text \<open>
  \<open>round(x, n)\<close>: the nearest multiple of \<open>10^-n\<close>, a tie going to the even
  multiple.
\<close>

definition round_half_even :: "real \<Rightarrow> int" where
  "round_half_even y =
     (let f = \<lfloor>y\<rfloor>; d = y - of_int f
      in if d < 1 / 2 then f else if 1 / 2 < d then f + 1 else if even f then f else f + 1)"

definition py_round :: "real \<Rightarrow> nat \<Rightarrow> real" where
  "py_round x n = of_int (round_half_even (x * 10 ^ n)) / 10 ^ n"

section \<open>Strings\<close>

definition is_space :: "char \<Rightarrow> bool" where
  "is_space c = ((of_char c :: nat) \<in> {9, 10, 11, 12, 13, 28, 29, 30, 31, 32, 133, 160})"

definition lower_char :: "char \<Rightarrow> char" where
  "lower_char c =
     (let n = (of_char c :: nat)
      in if (65 \<le> n \<and> n \<le> 90) \<or> (192 \<le> n \<and> n \<le> 222 \<and> n \<noteq> 215)
         then char_of (n + 32) else c)"

definition lower :: "string \<Rightarrow> string" where
  "lower s = map lower_char s"

definition strip :: "string \<Rightarrow> string" where
  "strip s = rev (dropWhile is_space (rev (dropWhile is_space s)))"

text \<open>\<open>sub in s\<close> on strings.\<close>

fun contains :: "string \<Rightarrow> string \<Rightarrow> bool" where
  "contains sub [] = (sub = [])"
| "contains sub (c # cs) = (take (length sub) (c # cs) = sub \<or> contains sub cs)"

text \<open>
  \<open>re.sub(cls+, " ", s)\<close> for a character class \<open>cls\<close>: every maximal run of
  characters of the class becomes one space. The flag says that the previous
  character was already part of a run.
\<close>

fun squeeze :: "(char \<Rightarrow> bool) \<Rightarrow> bool \<Rightarrow> string \<Rightarrow> string" where
  "squeeze cls run [] = []"
| "squeeze cls run (c # cs) =
     (if cls c then (if run then squeeze cls True cs else CHR '' '' # squeeze cls True cs)
      else c # squeeze cls False cs)"

text \<open>\<open>s.split()\<close>: the maximal runs of characters that are not white space.\<close>

fun split_ws :: "string \<Rightarrow> string \<Rightarrow> string list" where
  "split_ws cur [] = (if cur = [] then [] else [cur])"
| "split_ws cur (c # cs) =
     (if is_space c then (if cur = [] then split_ws [] cs else cur # split_ws [] cs)
      else split_ws (cur @ [c]) cs)"

definition norm_text :: "json \<Rightarrow> error + string" where
  "norm_text v =
     (if \<not> truthy v then Inr []
      else case v of JStr s \<Rightarrow> Inr (strip (squeeze is_space False s)) | _ \<Rightarrow> Inl TypeError)"

definition COMMON_NOISE_TOKENS :: "string list" where
  "COMMON_NOISE_TOKENS =
     [''domaine'', ''domain'', ''maison'', ''les'', ''du'', ''de'', ''la'', ''le'', ''des'',
      ''and'', ''et'', ''vinhos'', ''wine'']"

text \<open>
  The characters that \<open>producer_tokens\<close> keeps, by code point: the ASCII letters and
  digits, the Latin-1 letters from 192 to 255, and the space.
\<close>

definition token_char :: "char \<Rightarrow> bool" where
  "token_char c =
     (let n = (of_char c :: nat)
      in (65 \<le> n \<and> n \<le> 90) \<or> (97 \<le> n \<and> n \<le> 122) \<or> (192 \<le> n \<and> n \<le> 255)
         \<or> (48 \<le> n \<and> n \<le> 57) \<or> n = 32)"

text \<open>The set of tokens is a list without duplicates.\<close>

definition producer_tokens :: "string \<Rightarrow> string list" where
  "producer_tokens name =
     (let cleaned = lower (squeeze (\<lambda>c. \<not> token_char c) False name)
      in remdups (filter (\<lambda>p. 4 \<le> length p \<and> p \<notin> set COMMON_NOISE_TOKENS) (split_ws [] cleaned)))"

section \<open>The place scorer\<close>

record GeocodeResult =
  lat :: real
  lng :: real
  display_name :: string
  query :: string
  source :: string
  confidence :: real

text \<open>
  The coordinates of one candidate, as the \<open>try\<close> block of the loop reads them.
  \<open>item.get\<close> on a value that is no dict raises \<open>AttributeError\<close>.
\<close>

definition item_coords :: "(string \<Rightarrow> real option) \<Rightarrow> json \<Rightarrow> error + real \<times> real" where
  "item_coords pf item =
     (case item of
        JDict d \<Rightarrow>
          ebind (to_float pf (dget d ''lat'' JNull)) (\<lambda>la.
          ebind (to_float pf (dget d ''lon'' JNull)) (\<lambda>lo. Inr (la, lo)))
      | _ \<Rightarrow> Inl AttributeError)"

text \<open>The score of one candidate whose coordinates were read, lines 264 to 292.\<close>

definition geocode_score :: "string list \<Rightarrow> string \<Rightarrow> dict \<Rightarrow> error + real" where
  "geocode_score p_tokens exp_region d =
     ebind (norm_text (dget d ''display_name'' JNull)) (\<lambda>display.
     let display_l = lower display;
         address = (case dget d ''address'' JNull of JDict a \<Rightarrow> a | _ \<Rightarrow> [])
     in
     ebind (norm_text (dget d ''class'' (JStr []))) (\<lambda>cls.
     ebind (norm_text (dget d ''type'' (JStr []))) (\<lambda>typ.
     let item_class = lower cls;
         item_type = lower typ;
         s1 = (if item_class \<in> {''shop'', ''office'', ''tourism'', ''amenity''} then 0.6 else 0);
         s2 = (if contains ''win'' item_type \<or> contains ''vine'' item_type
                  \<or> contains ''wine'' display_l then 0.6 else 0);
         s3 = (if p_tokens \<noteq> []
               then min 1.2 (real (length (filter (\<lambda>t. contains t display_l) p_tokens)) * 0.4)
               else 0)
     in
     ebind (norm_text (dget address ''country_code'' (dget d ''country_code'' (JStr [])))) (\<lambda>cc.
     let s4 = (if lower cc = ''fr'' then 0.3 else 0) in
     ebind (norm_text (dget address ''state'' (JStr []))) (\<lambda>st.
     ebind (norm_text (dget address ''county'' (JStr []))) (\<lambda>co.
     let region_blob = lower st @ '' '' @ lower co @ '' '' @ display_l;
         s5 = (if contains ''bourgogne'' region_blob then 0.6 else 0);
         s6 = (if exp_region \<noteq> [] \<and> contains exp_region display_l then 0.4 else 0)
     in Inr (0 + s1 + s2 + s3 + s4 + s5 + s6)))))))"

text \<open>
  The loop of \<open>pick_best_geocode\<close>. A candidate whose coordinates raise
  \<open>TypeError\<close> or \<open>ValueError\<close> is skipped; any other exception leaves the loop.
\<close>

fun best_geocode_loop ::
  "(string \<Rightarrow> real option) \<Rightarrow> string list \<Rightarrow> string \<Rightarrow> json list \<Rightarrow> real \<times> json option
     \<Rightarrow> error + real \<times> json option" where
  "best_geocode_loop pf p_tokens exp_region [] acc = Inr acc"
| "best_geocode_loop pf p_tokens exp_region (item # rest) (best_score, best_item) =
     (case item_coords pf item of
        Inl e \<Rightarrow>
          (if e = TypeError \<or> e = ValueError
           then best_geocode_loop pf p_tokens exp_region rest (best_score, best_item)
           else Inl e)
      | Inr c \<Rightarrow>
          (case geocode_score p_tokens exp_region (case item of JDict d \<Rightarrow> d | _ \<Rightarrow> []) of
             Inl e \<Rightarrow> Inl e
           | Inr score \<Rightarrow>
               (if best_score < score
                then best_geocode_loop pf p_tokens exp_region rest (score, Some item)
                else best_geocode_loop pf p_tokens exp_region rest (best_score, best_item))))"

definition pick_best_geocode ::
  "(string \<Rightarrow> real option) \<Rightarrow> json list \<Rightarrow> string \<Rightarrow> string \<Rightarrow> error + GeocodeResult option" where
  "pick_best_geocode pf results producer_name expected_region =
     (if results = [] then Inr None
      else
        ebind (best_geocode_loop pf (producer_tokens producer_name) (lower expected_region)
                 results (- 1, None)) (\<lambda>(best_score, best_item).
        case best_item of
          None \<Rightarrow> Inr None
        | Some item \<Rightarrow>
            (if \<not> truthy item then Inr None
             else
               let conf = min 0.98 (max 0.2 (best_score / 2.8)) in
               ebind (item_coords pf item) (\<lambda>(la, lo).
               ebind (norm_text (case item of JDict d \<Rightarrow> dget d ''display_name'' JNull | _ \<Rightarrow> JNull))
                 (\<lambda>dn.
               Inr (Some \<lparr>lat = la, lng = lo, display_name = dn, query = [],
                          source = ''nominatim'', confidence = py_round conf 3\<rparr>))))))"

section \<open>The clients and their shared cache\<close>

text \<open>
  What the services answer is outside the program: \<open>respond env n r\<close> is the outcome
  of the \<open>n\<close>-th request of a run when it asks \<open>r\<close>, and \<open>took env n\<close> the time it
  takes. A body that is no JSON is \<open>Body None\<close>. A request is named by what it asks;
  its URL encoding and headers are not modelled.
\<close>

datatype request =
    NominatimSearch string
  | WikidataSearch string
  | WikidataEntity string
  | PolygonSearch string

datatype reply = Timeout | ConnectionFailed | Body "json option"

record env =
  respond :: "nat \<Rightarrow> request \<Rightarrow> reply"
  took :: "nat \<Rightarrow> real"
  nominatim_min_delay :: real
  wikidata_min_delay :: real

text \<open>
  The state of a run: the cache dict that both clients share, the \<open>last_request\<close>
  field of each client, the wall clock, and a log of every sleep and every request.
\<close>

record state =
  cache :: dict
  nominatim_last_request :: real
  wikidata_last_request :: real
  clock :: real
  slept :: "real list"
  sent :: "request list"

definition rate_limit :: "real \<Rightarrow> real \<Rightarrow> state \<Rightarrow> state" where
  "rate_limit last_request min_delay s =
     (let elapsed = clock s - last_request
      in if elapsed < min_delay
         then s\<lparr>clock := clock s + (min_delay - elapsed), slept := slept s @ [min_delay - elapsed]\<rparr>
         else s)"

text \<open>\<open>urlopen\<close> and \<open>read\<close>: the request is logged, time passes, the service answers.\<close>

definition urlopen :: "env \<Rightarrow> request \<Rightarrow> state \<Rightarrow> (error + json option) \<times> state" where
  "urlopen env r s =
     (let n = length (sent s);
          s' = s\<lparr>clock := clock s + took env n, sent := sent s @ [r]\<rparr>
      in case respond env n r of
           Timeout \<Rightarrow> (Inl TimeoutError, s')
         | ConnectionFailed \<Rightarrow> (Inl URLError, s')
         | Body b \<Rightarrow> (Inr b, s'))"

definition as_list :: "json \<Rightarrow> json list" where
  "as_list v = (case v of JList xs \<Rightarrow> xs | _ \<Rightarrow> [])"

text \<open>\<open>NominatimClient._request\<close>.\<close>

definition nominatim_request :: "env \<Rightarrow> string \<Rightarrow> state \<Rightarrow> (error + json list) \<times> state" where
  "nominatim_request env q s =
     (case urlopen env (NominatimSearch q)
             (rate_limit (nominatim_last_request s) (nominatim_min_delay env) s) of
        (Inl e, s') \<Rightarrow> (Inl e, s')
      | (Inr raw, s') \<Rightarrow>
          (let payload = (case raw of None \<Rightarrow> JList [] | Some j \<Rightarrow> j)
           in (Inr (as_list payload), s'\<lparr>nominatim_last_request := clock s'\<rparr>)))"

text \<open>\<open>NominatimClient.search\<close>.\<close>

definition search :: "env \<Rightarrow> string \<Rightarrow> state \<Rightarrow> (error + json list) \<times> state" where
  "search env q s =
     (let key = lower (strip q)
      in case map_of (cache s) key of
           Some cached \<Rightarrow> (Inr (as_list cached), s)
         | None \<Rightarrow>
             (case nominatim_request env q s of
                (Inl e, s') \<Rightarrow> (Inl e, s')
              | (Inr results, s') \<Rightarrow>
                  (Inr results, s'\<lparr>cache := dput key (JList results) (cache s')\<rparr>)))"

text \<open>\<open>WikidataClient._request_json\<close>.\<close>

definition request_json :: "env \<Rightarrow> request \<Rightarrow> state \<Rightarrow> (error + json) \<times> state" where
  "request_json env r s =
     (case urlopen env r (rate_limit (wikidata_last_request s) (wikidata_min_delay env) s) of
        (Inl e, s') \<Rightarrow> (Inl e, s')
      | (Inr raw, s') \<Rightarrow>
          (Inr (case raw of None \<Rightarrow> JDict [] | Some j \<Rightarrow> j),
           s'\<lparr>wikidata_last_request := clock s'\<rparr>))"

text \<open>\<open>WikidataClient.search_entities\<close>.\<close>

definition search_entities :: "env \<Rightarrow> string \<Rightarrow> state \<Rightarrow> (error + json list) \<times> state" where
  "search_entities env q s =
     (let key = ''wd_search::'' @ lower (strip q)
      in case map_of (cache s) key of
           Some cached \<Rightarrow> (Inr (as_list cached), s)
         | None \<Rightarrow>
             (case request_json env (WikidataSearch q) s of
                (Inl e, s') \<Rightarrow> (Inl e, s')
              | (Inr payload, s') \<Rightarrow>
                  (let results = (case payload of JDict d \<Rightarrow> as_list (dget d ''search'' (JList []))
                                  | _ \<Rightarrow> [])
                   in (Inr results, s'\<lparr>cache := dput key (JList results) (cache s')\<rparr>))))"

text \<open>\<open>x.get(k, default) if isinstance(x, dict) else default\<close>.\<close>

definition get_if_dict :: "json \<Rightarrow> string \<Rightarrow> json \<Rightarrow> json" where
  "get_if_dict x k dflt = (case x of JDict d \<Rightarrow> dget d k dflt | _ \<Rightarrow> dflt)"

text \<open>
  The coordinate claim of an entity document, lines 208 to 222. \<open>value.get\<close> has no
  \<open>isinstance\<close> guard: a value that is no dict raises \<open>AttributeError\<close>.
\<close>

definition claim_coords :: "string \<Rightarrow> json \<Rightarrow> error + (real \<times> real) option" where
  "claim_coords entity_id payload =
     (case payload of
        JDict pd \<Rightarrow>
          (let entities = dget pd ''entities'' (JDict []);
               entity = get_if_dict entities entity_id (JDict []);
               claims = get_if_dict entity ''claims'' (JDict []);
               p625 = get_if_dict claims ''P625'' (JList [])
           in case p625 of
                JList (first # others) \<Rightarrow>
                  (let mainsnak = get_if_dict first ''mainsnak'' (JDict []);
                       datavalue = get_if_dict mainsnak ''datavalue'' (JDict []);
                       val = get_if_dict datavalue ''value'' (JDict [])
                   in case val of
                        JDict vd \<Rightarrow>
                          (let la = dget vd ''latitude'' JNull; lo = dget vd ''longitude'' JNull
                           in if is_number la \<and> is_number lo
                              then ebind (float_of_number la) (\<lambda>x.
                                   ebind (float_of_number lo) (\<lambda>y. Inr (Some (x, y))))
                              else Inr None)
                      | _ \<Rightarrow> Inl AttributeError)
              | _ \<Rightarrow> Inr None)
      | _ \<Rightarrow> Inr None)"

definition no_coordinate :: json where
  "no_coordinate = JDict [(''lat'', JNull), (''lng'', JNull)]"

text \<open>\<open>WikidataClient.entity_coordinates\<close>.\<close>

definition entity_coordinates ::
  "env \<Rightarrow> string \<Rightarrow> state \<Rightarrow> (error + (real \<times> real) option) \<times> state" where
  "entity_coordinates env entity_id s =
     (let key = ''wd_entity::'' @ entity_id
      in case map_of (cache s) key of
           Some cached \<Rightarrow>
             (case cached of
                JDict cd \<Rightarrow>
                  (if is_number (dget cd ''lat'' JNull) \<and> is_number (dget cd ''lng'' JNull)
                   then (ebind (float_of_number (dget cd ''lat'' JNull)) (\<lambda>x.
                         ebind (float_of_number (dget cd ''lng'' JNull)) (\<lambda>y. Inr (Some (x, y)))), s)
                   else (Inr None, s))
              | _ \<Rightarrow> (Inr None, s))
         | None \<Rightarrow>
             (case request_json env (WikidataEntity entity_id) s of
                (Inl e, s') \<Rightarrow> (Inl e, s')
              | (Inr payload, s') \<Rightarrow>
                  (case claim_coords entity_id payload of
                     Inl e \<Rightarrow> (Inl e, s')
                   | Inr (Some (x, y)) \<Rightarrow>
                       (Inr (Some (x, y)),
                        s'\<lparr>cache := dput key (JDict [(''lat'', JFloat x), (''lng'', JFloat y)]) (cache s')\<rparr>)
                   | Inr None \<Rightarrow>
                       (Inr None, s'\<lparr>cache := dput key no_coordinate (cache s')\<rparr>))))"

section \<open>The resolution pipeline\<close>

text \<open>The loop of \<open>try_geocode_subregion\<close> over its phrasings.\<close>

fun subregion_queries ::
  "env \<Rightarrow> (string \<Rightarrow> real option) \<Rightarrow> string \<Rightarrow> string list \<Rightarrow> state
     \<Rightarrow> (error + GeocodeResult option) \<times> state" where
  "subregion_queries env pf sub_region [] s = (Inr None, s)"
| "subregion_queries env pf sub_region (q # qs) s =
     (case search env q s of
        (Inl e, s') \<Rightarrow> (Inl e, s')
      | (Inr results, s') \<Rightarrow>
          (case pick_best_geocode pf results [] sub_region of
             Inl e \<Rightarrow> (Inl e, s')
           | Inr None \<Rightarrow> subregion_queries env pf sub_region qs s'
           | Inr (Some picked) \<Rightarrow>
               (Inr (Some (picked\<lparr>query := q, source := ''sub_region_geocode'',
                                  confidence := max (confidence picked) 0.7\<rparr>)), s')))"

definition try_geocode_subregion ::
  "env \<Rightarrow> (string \<Rightarrow> real option) \<Rightarrow> string \<Rightarrow> state \<Rightarrow> (error + GeocodeResult option) \<times> state" where
  "try_geocode_subregion env pf sub_region s =
     subregion_queries env pf sub_region
       [sub_region @ '', Bourgogne, France'', sub_region @ '', Burgundy, France''] s"

fun producer_queries ::
  "env \<Rightarrow> (string \<Rightarrow> real option) \<Rightarrow> string \<Rightarrow> string \<Rightarrow> string list \<Rightarrow> state
     \<Rightarrow> (error + GeocodeResult option) \<times> state" where
  "producer_queries env pf producer primary_sub_region [] s = (Inr None, s)"
| "producer_queries env pf producer primary_sub_region (q # qs) s =
     (case search env q s of
        (Inl e, s') \<Rightarrow> (Inl e, s')
      | (Inr results, s') \<Rightarrow>
          (case pick_best_geocode pf results producer primary_sub_region of
             Inl e \<Rightarrow> (Inl e, s')
           | Inr None \<Rightarrow> producer_queries env pf producer primary_sub_region qs s'
           | Inr (Some picked) \<Rightarrow>
               (Inr (Some (picked\<lparr>query := q, source := ''producer_geocode''\<rparr>)), s')))"

definition try_geocode_producer ::
  "env \<Rightarrow> (string \<Rightarrow> real option) \<Rightarrow> string \<Rightarrow> string \<Rightarrow> state
     \<Rightarrow> (error + GeocodeResult option) \<times> state" where
  "try_geocode_producer env pf producer primary_sub_region s =
     producer_queries env pf producer primary_sub_region
       ((if primary_sub_region \<noteq> []
         then [producer @ '', '' @ primary_sub_region @ '', Bourgogne, France''] else [])
        @ [producer @ '', Bourgogne, France'',
           producer @ '' winery, Bourgogne, France'',
           producer @ '' domaine, Bourgogne, France'',
           producer @ '', Burgundy, France'']) s"

section \<open>The knowledge-base scorer\<close>

definition wikidata_score :: "string list \<Rightarrow> dict \<Rightarrow> error + real" where
  "wikidata_score tokens d =
     ebind (norm_text (dget d ''label'' JNull)) (\<lambda>label.
     ebind (norm_text (dget d ''description'' JNull)) (\<lambda>description.
     let blob = lower (label @ '' '' @ description);
         s1 = (if \<exists>k \<in> set [''winery'', ''wine producer'', ''wine house'', ''vineyard'',
                               ''viticulture'']. contains k blob then 1.0 else 0);
         s2 = (if contains ''domaine'' blob \<or> contains ''chateau'' blob \<or> contains ''maison'' blob
               then 0.4 else 0);
         s3 = (if tokens \<noteq> []
               then min 1.2 (real (length (filter (\<lambda>t. contains t blob) tokens)) * 0.4)
               else 0);
         s4 = (if contains ''france'' blob \<or> contains ''burgundy'' blob \<or> contains ''bourgogne'' blob
               then 0.2 else 0)
     in Inr (0 + s1 + s2 + s3 + s4)))"

fun best_wikidata_loop ::
  "string list \<Rightarrow> json list \<Rightarrow> real \<times> json option \<Rightarrow> error + real \<times> json option" where
  "best_wikidata_loop tokens [] acc = Inr acc"
| "best_wikidata_loop tokens (entity # rest) (best_score, best) =
     (case entity of
        JDict d \<Rightarrow>
          (case wikidata_score tokens d of
             Inl e \<Rightarrow> Inl e
           | Inr score \<Rightarrow>
               (if best_score < score
                then best_wikidata_loop tokens rest (score, Some entity)
                else best_wikidata_loop tokens rest (best_score, best)))
      | _ \<Rightarrow> best_wikidata_loop tokens rest (best_score, best))"

definition pick_best_wikidata_entity :: "json list \<Rightarrow> string \<Rightarrow> error + json option" where
  "pick_best_wikidata_entity results producer =
     (if results = [] then Inr None
      else ebind (best_wikidata_loop (producer_tokens producer) results (- 1, None))
             (\<lambda>(best_score, best). Inr best))"

fun wikidata_queries ::
  "env \<Rightarrow> string \<Rightarrow> string list \<Rightarrow> state \<Rightarrow> (error + GeocodeResult option) \<times> state" where
  "wikidata_queries env producer [] s = (Inr None, s)"
| "wikidata_queries env producer (q # qs) s =
     (case search_entities env q s of
        (Inl e, s1) \<Rightarrow> (Inl e, s1)
      | (Inr entities, s1) \<Rightarrow>
          (case pick_best_wikidata_entity entities producer of
             Inl e \<Rightarrow> (Inl e, s1)
           | Inr None \<Rightarrow> wikidata_queries env producer qs s1
           | Inr (Some best) \<Rightarrow>
               (if \<not> truthy best then wikidata_queries env producer qs s1
                else
                  (let d = (case best of JDict bd \<Rightarrow> bd | _ \<Rightarrow> [])
                   in case norm_text (dget d ''id'' JNull) of
                        Inl e \<Rightarrow> (Inl e, s1)
                      | Inr entity_id \<Rightarrow>
                          (if entity_id = [] then wikidata_queries env producer qs s1
                           else
                             (case entity_coordinates env entity_id s1 of
                                (Inl e, s2) \<Rightarrow> (Inl e, s2)
                              | (Inr None, s2) \<Rightarrow> wikidata_queries env producer qs s2
                              | (Inr (Some (x, y)), s2) \<Rightarrow>
                                  (ebind (norm_text (dget d ''label'' JNull)) (\<lambda>l.
                                   ebind (norm_text (dget d ''description'' JNull)) (\<lambda>description.
                                   let label = (if l \<noteq> [] then l else producer) in
                                   Inr (Some \<lparr>lat = x, lng = y,
                                     display_name =
                                       (if description \<noteq> [] then label @ '' ('' @ description @ '')''
                                        else label),
                                     query = q, source = ''producer_wikidata'',
                                     confidence = 0.74\<rparr>))), s2)))))))"

definition try_wikidata_producer ::
  "env \<Rightarrow> string \<Rightarrow> state \<Rightarrow> (error + GeocodeResult option) \<times> state" where
  "try_wikidata_producer env producer s =
     (let producer_l = lower producer
      in wikidata_queries env producer
           ([producer]
            @ (if \<not> contains ''domaine'' producer_l then [''Domaine '' @ producer] else [])
            @ (if \<not> contains ''maison'' producer_l then [''Maison '' @ producer] else [])
            @ (if \<not> contains ''chateau'' producer_l
                  \<and> \<not> contains (''ch'' @ [char_of (226 :: nat)] @ ''teau'') producer_l
               then [''Chateau '' @ producer] else [])
            @ [producer @ '' winery'']) s)"

section \<open>The steps of \<open>run\<close>\<close>

definition hardcoded_region :: GeocodeResult where
  "hardcoded_region =
     \<lparr>lat = 47.052, lng = 4.383, display_name = ''Bourgogne, France'', query = ''hardcoded'',
      source = ''hardcoded_region_fallback'', confidence = 0.3\<rparr>"



text \<open>The location of one producer, lines 521 to 552.\<close>

definition producer_location ::
  "env \<Rightarrow> (string \<Rightarrow> real option) \<Rightarrow> string \<Rightarrow> string \<Rightarrow> (string \<times> GeocodeResult) list
     \<Rightarrow> GeocodeResult \<Rightarrow> state \<Rightarrow> (error + GeocodeResult) \<times> state" where
  "producer_location env pf producer primary_sub_region sub_region_geo region_geo s =
     (case try_geocode_producer env pf producer primary_sub_region s of
        (Inl e, s1) \<Rightarrow> (Inl e, s1)
      | (Inr direct, s1) \<Rightarrow>
          (case (case direct of
                   None \<Rightarrow> try_wikidata_producer env producer s1
                 | Some g \<Rightarrow> (Inr (Some g), s1)) of
             (Inl e, s2) \<Rightarrow> (Inl e, s2)
           | (Inr (Some geo), s2) \<Rightarrow> (Inr geo, s2)
           | (Inr None, s2) \<Rightarrow>
               (case map_of sub_region_geo primary_sub_region of
                  Some srg \<Rightarrow>
                    (Inr \<lparr>lat = lat srg, lng = lng srg, display_name = display_name srg,
                          query = query srg, source = ''producer_sub_region_fallback'',
                          confidence = 0.55\<rparr>, s2)
                | None \<Rightarrow>
                    (Inr \<lparr>lat = lat region_geo, lng = lng region_geo,
                          display_name = display_name region_geo, query = query region_geo,
                          source = ''producer_region_fallback'', confidence = 0.35\<rparr>, s2))))"


text \<open>The \<open>map\<close> entry of one enriched wine, lines 584 to 624.\<close>

record map_entry =
  map_lat :: real
  map_lng :: real
  map_source :: string
  map_confidence :: real

definition wine_coords ::
  "string \<Rightarrow> string \<Rightarrow> (string \<times> GeocodeResult) list \<Rightarrow> (string \<times> GeocodeResult) list
     \<Rightarrow> GeocodeResult \<Rightarrow> real \<times> real \<times> string \<times> real" where
  "wine_coords sub_region producer sub_region_geo producer_geo region_geo =
     (case (if sub_region \<noteq> [] then map_of sub_region_geo sub_region else None) of
        Some g \<Rightarrow> (lat g, lng g, ''sub_region'', max 0.68 (confidence g))
      | None \<Rightarrow>
          (case (if producer \<noteq> [] then map_of producer_geo producer else None) of
             Some g \<Rightarrow> (lat g, lng g, ''producer'', max 0.5 (confidence g))
           | None \<Rightarrow> (lat region_geo, lng region_geo, ''region'', 0.3)))"

definition wine_map ::
  "dict \<Rightarrow> (string \<times> GeocodeResult) list \<Rightarrow> (string \<times> GeocodeResult) list \<Rightarrow> GeocodeResult
     \<Rightarrow> error + map_entry" where
  "wine_map wine sub_region_geo producer_geo region_geo =
     ebind (norm_text (dget wine ''producer'' JNull)) (\<lambda>producer.
     ebind (norm_text (dget wine ''sub_region'' JNull)) (\<lambda>sub_region.
     ebind (norm_text (dget wine ''grape'' JNull)) (\<lambda>grape.
     case wine_coords sub_region producer sub_region_geo producer_geo region_geo of
       (la, lo, coord_source, coord_conf) \<Rightarrow>
         ebind (norm_text (dget wine ''description'' JNull)) (\<lambda>desc.
         Inr \<lparr>map_lat = py_round la 6, map_lng = py_round lo 6, map_source = coord_source,
              map_confidence = py_round coord_conf 3\<rparr>))))"

section \<open>The polygon script\<close>






text \<open>\<open>Nominatim.search\<close> of the polygon script: \<open>json.loads\<close> is not guarded here.\<close>

definition polygon_search :: "env \<Rightarrow> string \<Rightarrow> state \<Rightarrow> (error + json list) \<times> state" where
  "polygon_search env q s =
     (let key = lower (strip q)
      in case map_of (cache s) key of
           Some cached \<Rightarrow> (Inr (as_list cached), s)
         | None \<Rightarrow>
             (case urlopen env (PolygonSearch q)
                     (rate_limit (nominatim_last_request s) (nominatim_min_delay env) s) of
                (Inl e, s') \<Rightarrow> (Inl e, s')
              | (Inr None, s') \<Rightarrow> (Inl JSONDecodeError, s')
              | (Inr (Some payload), s') \<Rightarrow>
                  (Inr (as_list payload),
                   s'\<lparr>nominatim_last_request := clock s',
                      cache := dput key (JList (as_list payload)) (cache s')\<rparr>)))"





section \<open>Concrete inputs\<close>

text \<open>
  A parser of plain decimal numerals, an instance of the parameter \<open>pf\<close>: an optional
  minus sign, digits, and an optional fraction.
\<close>

fun digits_val :: "string \<Rightarrow> nat \<Rightarrow> nat option" where
  "digits_val [] acc = Some acc"
| "digits_val (c # cs) acc =
     (let n = (of_char c :: nat)
      in if 48 \<le> n \<and> n \<le> 57 then digits_val cs (acc * 10 + (n - 48)) else None)"

definition decimal_float :: "string \<Rightarrow> real option" where
  "decimal_float s =
     (let t = strip s;
          neg = (t \<noteq> [] \<and> hd t = CHR ''-'');
          u = (if neg then tl t else t);
          ip = takeWhile (\<lambda>c. c \<noteq> CHR ''.'') u;
          fp = drop (Suc (length ip)) u
      in if ip = [] then None
         else case (digits_val ip 0, digits_val fp 0) of
                (Some a, Some b) \<Rightarrow>
                  Some ((if neg then - 1 else 1) * (real a + real b / 10 ^ length fp))
              | _ \<Rightarrow> None)"

text \<open>The candidate of the end-to-end example of the specification.\<close>

definition chablis :: json where
  "chablis = JDict [(''lat'', JStr ''47.81''), (''lon'', JStr ''3.79''),
     (''display_name'', JStr ''Chablis, Yonne, Bourgogne, France''),
     (''type'', JStr ''administrative''), (''class'', JStr ''boundary'')]"

definition chablis_geo :: GeocodeResult where
  "chablis_geo = \<lparr>lat = 47.81, lng = 3.79, display_name = ''Chablis, Yonne, Bourgogne, France'',
     query = ''Chablis, Bourgogne, France'', source = ''sub_region_geocode'', confidence = 0.7\<rparr>"

text \<open>A run that starts with an empty cache, and a service that always gives one answer.\<close>

definition fresh_state :: state where
  "fresh_state = \<lparr>cache = [], nominatim_last_request = 0, wikidata_last_request = 0,
     clock = 1000, slept = [], sent = []\<rparr>"

definition answering :: "reply \<Rightarrow> env" where
  "answering r = \<lparr>respond = (\<lambda>n q. r), took = (\<lambda>n. 0.2), nominatim_min_delay = 1.1,
     wikidata_min_delay = 0.25\<rparr>"

definition empty_service :: env where
  "empty_service = answering (Body (Some (JList [])))"

definition chablis_service :: env where
  "chablis_service = answering (Body (Some (JList [chablis])))"

section \<open>Scores and well-formed candidates\<close>



definition float_range :: "json \<Rightarrow> bool" where
  "float_range v = (case v of JInt i \<Rightarrow> \<bar>i\<bar> < float_max_int | _ \<Rightarrow> True)"











section \<open>Rounding and dictionaries\<close>

lemma round_half_even_ge: "of_int k \<le> y \<Longrightarrow> k \<le> round_half_even y"
proof -
  assume "of_int k \<le> y"
  then have "k \<le> \<lfloor>y\<rfloor>" by (simp add: le_floor_iff)
  then show ?thesis unfolding round_half_even_def Let_def by auto
qed

lemma round_half_even_le: "y \<le> of_int k \<Longrightarrow> round_half_even y \<le> k"
proof -
  assume h: "y \<le> of_int k"
  then have a: "\<lfloor>y\<rfloor> \<le> k" by (simp add: floor_le_iff)
  have b: "0 < y - of_int \<lfloor>y\<rfloor> \<Longrightarrow> \<lfloor>y\<rfloor> + 1 \<le> k"
  proof -
    assume "0 < y - of_int \<lfloor>y\<rfloor>"
    then have "of_int \<lfloor>y\<rfloor> < (of_int k :: real)" using h by linarith
    then have "\<lfloor>y\<rfloor> < k" by simp
    then show ?thesis by simp
  qed
  show ?thesis unfolding round_half_even_def Let_def using a b by auto
qed

lemma py_round_ge: "of_int k / 10 ^ n \<le> x \<Longrightarrow> of_int k / 10 ^ n \<le> py_round x n"
  unfolding py_round_def
  by (simp add: divide_le_cancel pos_divide_le_eq round_half_even_ge)

lemma py_round_le: "x \<le> of_int k / 10 ^ n \<Longrightarrow> py_round x n \<le> of_int k / 10 ^ n"
  unfolding py_round_def
  by (simp add: divide_le_cancel pos_le_divide_eq round_half_even_le)

lemma py_round_exact: "py_round (of_int k / 10 ^ n) n = of_int k / 10 ^ n"
  by (rule antisym[OF py_round_le py_round_ge]) simp_all

lemma map_of_dput: "map_of (dput k v d) k' = (if k' = k then Some v else map_of d k')"
  by (induction d) auto

section \<open>Wine-level confidence\<close>

text \<open>
  Claim C10. The \<open>map\<close> entry of every enriched wine has a confidence of at least
  0.3: coordinates taken from a sub-region are floored at 0.68, coordinates taken from
  a producer at 0.5, and the region fallback has exactly 0.3.
\<close>

theorem wine_map_confidence_floor:
  assumes "wine_map wine sub_region_geo producer_geo region_geo = Inr m"
  shows "0.3 \<le> map_confidence m
     \<and> (map_source m = ''sub_region'' \<longrightarrow> 0.68 \<le> map_confidence m)
     \<and> (map_source m = ''producer'' \<longrightarrow> 0.5 \<le> map_confidence m)
     \<and> (map_source m = ''region'' \<longrightarrow> map_confidence m = 0.3)
     \<and> map_source m \<in> {''sub_region'', ''producer'', ''region''}"
proof -
  obtain la lo src conf p sr where
    wc: "wine_coords sr p sub_region_geo producer_geo region_geo = (la, lo, src, conf)"
    and m: "m = \<lparr>map_lat = py_round la 6, map_lng = py_round lo 6, map_source = src,
                  map_confidence = py_round conf 3\<rparr>"
    using assms unfolding wine_map_def ebind_def
    by (auto split: sum.splits prod.splits)
  have a: "(680 :: real) / 10 ^ 3 \<le> x \<Longrightarrow> 0.68 \<le> py_round x 3" for x
    using py_round_ge[of 680 3 x] by simp
  have b: "(500 :: real) / 10 ^ 3 \<le> x \<Longrightarrow> 0.5 \<le> py_round x 3" for x
    using py_round_ge[of 500 3 x] by simp
  have c: "py_round 0.3 3 = 0.3"
    using py_round_exact[of 300 3] by simp
  from wc consider
      (S) "src = ''sub_region''" "0.68 \<le> conf"
    | (P) "src = ''producer''" "0.5 \<le> conf"
    | (R) "src = ''region''" "conf = 0.3"
    unfolding wine_coords_def by (auto split: option.splits if_splits)
  then show ?thesis
  proof cases
    case S
    then have "0.68 \<le> py_round conf 3" by (intro a) simp
    with S m show ?thesis by simp
  next
    case P
    then have "0.5 \<le> py_round conf 3" by (intro b) simp
    with P m show ?thesis by simp
  next
    case R
    with m c show ?thesis by simp
  qed
qed

theorem wine_map_confidence_floor_witness:
  "wine_map [(''producer'', JStr ''Domaine Test''), (''sub_region'', JStr '' Chablis '')]
     [(''Chablis'', chablis_geo)] [] hardcoded_region
     = Inr \<lparr>map_lat = 47.81, map_lng = 3.79, map_source = ''sub_region'', map_confidence = 0.7\<rparr>
   \<and> 0.68 \<le> map_confidence
        \<lparr>map_lat = 47.81, map_lng = 3.79, map_source = ''sub_region'', map_confidence = 0.7\<rparr>"
proof -
  have h: "wine_map [(''producer'', JStr ''Domaine Test''), (''sub_region'', JStr '' Chablis '')]
       [(''Chablis'', chablis_geo)] [] hardcoded_region
       = Inr \<lparr>map_lat = 47.81, map_lng = 3.79, map_source = ''sub_region'', map_confidence = 0.7\<rparr>"
    by code_simp
  show ?thesis using h wine_map_confidence_floor[OF h] by simp
qed

section \<open>The cache\<close>



text \<open>
  Claim C7. A lookup that misses the cache and finds no coordinate stores the entry
  with both fields null; a lookup in any state that holds this entry returns no
  coordinate and leaves the state as it is, whatever the service would answer.
\<close>

theorem negative_cache:
  "(map_of (cache t) (''wd_entity::'' @ entity_id) = Some no_coordinate
      \<longrightarrow> entity_coordinates env entity_id t = (Inr None, t))
   \<and> (map_of (cache s) (''wd_entity::'' @ entity_id) = None
        \<and> entity_coordinates env entity_id s = (Inr None, s')
      \<longrightarrow> map_of (cache s') (''wd_entity::'' @ entity_id) = Some no_coordinate
          \<and> entity_coordinates env' entity_id s' = (Inr None, s'))"
proof -
  have hit: "map_of (cache t) (''wd_entity::'' @ entity_id) = Some no_coordinate
      \<Longrightarrow> entity_coordinates e entity_id t = (Inr None, t)" for e t
    unfolding entity_coordinates_def Let_def no_coordinate_def by (simp add: dget_def)
  have miss: "map_of (cache s) (''wd_entity::'' @ entity_id) = None
        \<Longrightarrow> entity_coordinates env entity_id s = (Inr None, s')
        \<Longrightarrow> map_of (cache s') (''wd_entity::'' @ entity_id) = Some no_coordinate"
    unfolding entity_coordinates_def Let_def
    by (auto simp: map_of_dput split: prod.splits sum.splits option.splits)
  show ?thesis using hit miss by blast
qed

theorem negative_cache_witness:
  "fst (entity_coordinates (answering (Body (Some (JDict [])))) ''Q42'' fresh_state) = Inr None
   \<and> map_of (cache (snd (entity_coordinates (answering (Body (Some (JDict [])))) ''Q42'' fresh_state)))
       ''wd_entity::Q42'' = Some no_coordinate
   \<and> entity_coordinates (answering Timeout) ''Q42''
       (snd (entity_coordinates (answering (Body (Some (JDict [])))) ''Q42'' fresh_state))
     = (Inr None, snd (entity_coordinates (answering (Body (Some (JDict [])))) ''Q42'' fresh_state))"
proof -
  have miss: "map_of (cache fresh_state) (''wd_entity::'' @ ''Q42'') = None"
    by (simp add: fresh_state_def)
  have f: "fst (entity_coordinates (answering (Body (Some (JDict [])))) ''Q42'' fresh_state) = Inr None"
    by code_simp
  then have r: "entity_coordinates (answering (Body (Some (JDict [])))) ''Q42'' fresh_state
      = (Inr None, snd (entity_coordinates (answering (Body (Some (JDict [])))) ''Q42'' fresh_state))"
    by (metis prod.collapse)
  show ?thesis
    using f miss r
      negative_cache[where entity_id = "''Q42''" and s = fresh_state
        and env = "answering (Body (Some (JDict [])))"
        and s' = "snd (entity_coordinates (answering (Body (Some (JDict [])))) ''Q42'' fresh_state)"
        and env' = "answering Timeout"]
    by simp
qed

section \<open>Faults at the client boundary\<close>




text \<open>
  The client of the polygon script decodes the body outside any \<open>try\<close>: there a body
  that is no JSON raises.
\<close>

lemma polygon_search_malformed_body:
  assumes "map_of (cache s) (lower (strip q)) = None"
    and "respond env (length (sent s)) (PolygonSearch q) = Body None"
  shows "fst (polygon_search env q s) = Inl JSONDecodeError"
  using assms unfolding polygon_search_def urlopen_def rate_limit_def Let_def by simp

section \<open>Evaluations of the pipeline\<close>


lemma eval_chablis:
  "fst (try_geocode_subregion chablis_service decimal_float ''Chablis'' fresh_state)
     = Inr (Some chablis_geo)"
  by code_simp

lemma eval_producer_direct:
  "fst (try_geocode_producer empty_service decimal_float ''Domaine Test'' ''Chablis'' fresh_state)
     = Inr None"
  by code_simp

lemma eval_producer_wikidata:
  "fst (try_wikidata_producer empty_service ''Domaine Test''
          (snd (try_geocode_producer empty_service decimal_float ''Domaine Test'' ''Chablis''
                  fresh_state)))
     = Inr None"
  by code_simp

section \<open>Sub-region resolution\<close>

text \<open>
  Claim C6. \<open>try_geocode_subregion\<close> searches the phrasing with Bourgogne first and
  the one with Burgundy only when the first gave no scored candidate; the first
  phrasing with a scored candidate makes the result, which carries the source
  \<open>sub_region_geocode\<close> and the maximum of the scored confidence and 0.7. No result
  means that both phrasings were searched and neither gave a candidate.
\<close>

theorem try_geocode_subregion_phrasings:
  assumes "try_geocode_subregion env pf sub_region s = (Inr r, s')"
  shows "((\<exists>r1 picked.
            search env (sub_region @ '', Bourgogne, France'') s = (Inr r1, s')
          \<and> pick_best_geocode pf r1 [] sub_region = Inr (Some picked)
          \<and> r = Some (picked\<lparr>query := sub_region @ '', Bourgogne, France'',
                              source := ''sub_region_geocode'',
                              confidence := max (confidence picked) 0.7\<rparr>))
       \<or> (\<exists>r1 s1 r2 picked.
            search env (sub_region @ '', Bourgogne, France'') s = (Inr r1, s1)
          \<and> pick_best_geocode pf r1 [] sub_region = Inr None
          \<and> search env (sub_region @ '', Burgundy, France'') s1 = (Inr r2, s')
          \<and> pick_best_geocode pf r2 [] sub_region = Inr (Some picked)
          \<and> r = Some (picked\<lparr>query := sub_region @ '', Burgundy, France'',
                              source := ''sub_region_geocode'',
                              confidence := max (confidence picked) 0.7\<rparr>))
       \<or> (\<exists>r1 s1 r2.
            search env (sub_region @ '', Bourgogne, France'') s = (Inr r1, s1)
          \<and> pick_best_geocode pf r1 [] sub_region = Inr None
          \<and> search env (sub_region @ '', Burgundy, France'') s1 = (Inr r2, s')
          \<and> pick_best_geocode pf r2 [] sub_region = Inr None
          \<and> r = None))
     \<and> (\<forall>g. r = Some g \<longrightarrow> source g = ''sub_region_geocode'' \<and> 0.7 \<le> confidence g)"
proof -
  obtain r1 s1 where s1: "search env (sub_region @ '', Bourgogne, France'') s = (Inr r1, s1)"
    using assms unfolding try_geocode_subregion_def
    by (auto split: prod.splits sum.splits)
  obtain p1 where p1: "pick_best_geocode pf r1 [] sub_region = Inr p1"
    using assms s1 unfolding try_geocode_subregion_def
    by (auto split: prod.splits sum.splits)
  show ?thesis
  proof (cases p1)
    case (Some picked)
    then show ?thesis
      using assms s1 p1 unfolding try_geocode_subregion_def by auto
  next
    case None
    obtain r2 where s2: "search env (sub_region @ '', Burgundy, France'') s1 = (Inr r2, s')"
      using assms s1 p1 None unfolding try_geocode_subregion_def
      by (auto split: prod.splits sum.splits option.splits)
    obtain p2 where p2: "pick_best_geocode pf r2 [] sub_region = Inr p2"
      using assms s1 p1 None s2 unfolding try_geocode_subregion_def
      by (auto split: prod.splits sum.splits)
    show ?thesis
      using assms s1 p1 None s2 p2 unfolding try_geocode_subregion_def
      by (cases p2) auto
  qed
qed

theorem try_geocode_subregion_phrasings_witness:
  "\<exists>g s'. try_geocode_subregion chablis_service decimal_float ''Chablis'' fresh_state
             = (Inr (Some g), s')
     \<and> lat g = 47.81 \<and> lng g = 3.79 \<and> query g = ''Chablis, Bourgogne, France''
     \<and> source g = ''sub_region_geocode'' \<and> 0.7 \<le> confidence g"
proof -
  have h: "try_geocode_subregion chablis_service decimal_float ''Chablis'' fresh_state
      = (Inr (Some chablis_geo),
         snd (try_geocode_subregion chablis_service decimal_float ''Chablis'' fresh_state))"
    using eval_chablis by (metis prod.collapse)
  have "source chablis_geo = ''sub_region_geocode'' \<and> 0.7 \<le> confidence chablis_geo"
    using try_geocode_subregion_phrasings[OF h] by simp
  then show ?thesis using h by (auto simp: chablis_geo_def)
qed

section \<open>Producer resolution\<close>

text \<open>
  Claim C2. When the direct geocode attempts and the knowledge-base attempts of a
  producer both end without a result, the producer gets the coordinates of its
  dominant sub-region with source \<open>producer_sub_region_fallback\<close> and confidence 0.55
  if that sub-region was resolved, and otherwise the region-wide coordinates with
  source \<open>producer_region_fallback\<close> and confidence 0.35.
\<close>

theorem producer_fallback:
  assumes "try_geocode_producer env pf producer primary_sub_region s = (Inr None, s1)"
      and "try_wikidata_producer env producer s1 = (Inr None, s2)"
  shows "\<exists>geo. producer_location env pf producer primary_sub_region sub_region_geo region_geo s
             = (Inr geo, s2)
     \<and> (\<forall>srg. map_of sub_region_geo primary_sub_region = Some srg \<longrightarrow>
           lat geo = lat srg \<and> lng geo = lng srg
           \<and> source geo = ''producer_sub_region_fallback'' \<and> confidence geo = 0.55)
     \<and> (map_of sub_region_geo primary_sub_region = None \<longrightarrow>
           lat geo = lat region_geo \<and> lng geo = lng region_geo
           \<and> source geo = ''producer_region_fallback'' \<and> confidence geo = 0.35)"
  using assms unfolding producer_location_def
  by (cases "map_of sub_region_geo primary_sub_region") simp_all

theorem producer_fallback_witness:
  "\<exists>geo s2. producer_location empty_service decimal_float ''Domaine Test'' ''Chablis''
               [(''Chablis'', chablis_geo)] hardcoded_region fresh_state = (Inr geo, s2)
     \<and> lat geo = 47.81 \<and> lng geo = 3.79
     \<and> source geo = ''producer_sub_region_fallback'' \<and> confidence geo = 0.55"
proof -
  have h1: "try_geocode_producer empty_service decimal_float ''Domaine Test'' ''Chablis'' fresh_state
      = (Inr None, snd (try_geocode_producer empty_service decimal_float ''Domaine Test''
                          ''Chablis'' fresh_state))"
    using eval_producer_direct by (metis prod.collapse)
  have h2: "try_wikidata_producer empty_service ''Domaine Test''
        (snd (try_geocode_producer empty_service decimal_float ''Domaine Test'' ''Chablis''
                fresh_state))
      = (Inr None, snd (try_wikidata_producer empty_service ''Domaine Test''
           (snd (try_geocode_producer empty_service decimal_float ''Domaine Test'' ''Chablis''
                   fresh_state))))"
    using eval_producer_wikidata by (metis prod.collapse)
  show ?thesis
    using producer_fallback[OF h1 h2, of "[(''Chablis'', chablis_geo)]" hardcoded_region]
    by (auto simp: chablis_geo_def)
qed

section \<open>Every entity and its result\<close>





section \<open>The scorers\<close>




lemma float_of_number_range:
  "float_range v \<Longrightarrow> float_of_number v = Inl e \<Longrightarrow> e = TypeError"
  unfolding float_range_def by (cases v) (auto split: if_splits)

lemma to_float_range:
  "float_range v \<Longrightarrow> to_float pf v = Inl e \<Longrightarrow> e = TypeError \<or> e = ValueError"
  unfolding to_float_def
  by (cases v) (auto split: option.splits dest: float_of_number_range simp: float_range_def)




















section \<open>Candidates without coordinates\<close>

text \<open>
  Claim C9. The loop catches \<open>TypeError\<close> and \<open>ValueError\<close> only. A candidate whose
  latitude is an integer beyond the range of a double cannot be parsed as a float, and
  it is not skipped: \<open>float\<close> raises \<open>OverflowError\<close>, which leaves
  \<open>pick_best_geocode\<close>.
\<close>

theorem overflow_not_skipped:
  "pick_best_geocode pf [JDict [(''lat'', JInt (10 ^ 400)), (''lon'', JStr ''4.0'')]]
     producer_name expected_region = Inl OverflowError"
proof -
  have "\<not> \<bar>(10 :: int) ^ 400\<bar> < float_max_int"
    unfolding float_max_int_def by simp
  then have "item_coords pf (JDict [(''lat'', JInt (10 ^ 400)), (''lon'', JStr ''4.0'')])
      = Inl OverflowError"
    unfolding item_coords_def ebind_def to_float_def dget_def by simp
  then show ?thesis
    unfolding pick_best_geocode_def ebind_def by simp
qed

text \<open>
  Apart from that case the candidates without coordinates are skipped: when every
  result is a dict whose coordinates are in range and none has coordinates that
  parse, the result is \<open>None\<close>.
\<close>

lemma best_geocode_loop_skips:
  assumes "\<forall>item \<in> set xs. \<exists>e. item_coords pf item = Inl e \<and> (e = TypeError \<or> e = ValueError)"
  shows "best_geocode_loop pf t e xs acc = Inr acc"
  using assms
proof (induction xs)
  case Nil
  then show ?case by simp
next
  case (Cons item xs)
  obtain bs bi where "acc = (bs, bi)" by (cases acc)
  with Cons show ?case by auto
qed

lemma unparseable_candidates_skipped:
  assumes "\<forall>item \<in> set results. \<exists>d. item = JDict d
             \<and> float_range (dget d ''lat'' JNull) \<and> float_range (dget d ''lon'' JNull)"
    and "\<forall>item \<in> set results. \<forall>c. item_coords pf item \<noteq> Inr c"
  shows "pick_best_geocode pf results producer_name expected_region = Inr None"
proof -
  have "\<forall>item \<in> set results. \<exists>e. item_coords pf item = Inl e \<and> (e = TypeError \<or> e = ValueError)"
  proof
    fix item assume i: "item \<in> set results"
    with assms(1) obtain d where d: "item = JDict d"
      "float_range (dget d ''lat'' JNull)" "float_range (dget d ''lon'' JNull)" by blast
    from assms(2) i obtain e where e: "item_coords pf item = Inl e"
      by (cases "item_coords pf item") auto
    then have "e = TypeError \<or> e = ValueError"
      using d unfolding item_coords_def ebind_def
      by (auto split: sum.splits dest: to_float_range)
    with e show "\<exists>e. item_coords pf item = Inl e \<and> (e = TypeError \<or> e = ValueError)" by blast
  qed
  from best_geocode_loop_skips[OF this] show ?thesis
    unfolding pick_best_geocode_def ebind_def by simp
qed

end
